theory Spec2Isabelle
  imports Main "HOL-Library.Word" "HOL-Library.Finite_Map"
begin

section \<open>Go values shared by the embedded functions\<close>

text \<open>
  A Go \<^verbatim>\<open>error\<close> value is modelled as \<open>string option\<close>: \<open>None\<close> is \<^verbatim>\<open>nil\<close>,
  \<open>Some msg\<close> is an error whose \<^verbatim>\<open>Error()\<close> text is \<open>msg\<close>. A function that can panic
  returns a \<open>result\<close>; a pointer is an \<open>option\<close> (\<open>None\<close> is the nil pointer).
\<close>

type_synonym go_error = "string option"

datatype 'a result = Ok 'a | Error string | Panic string

text \<open>\<^verbatim>\<open>%d\<close> of the package fmt, for an integer: decimal digits, a minus sign first.\<close>

fun fmt_nat :: "nat \<Rightarrow> string" where
  "fmt_nat n =
     (if n < 10 then [''0123456789'' ! n]
      else fmt_nat (n div 10) @ [''0123456789'' ! (n mod 10)])"

declare fmt_nat.simps [simp del]

definition fmt_d :: "int \<Rightarrow> string" where
  "fmt_d i = (if i < 0 then CHR ''-'' # fmt_nat (nat (- i)) else fmt_nat (nat i))"

text \<open>
  \<^verbatim>\<open>time.Time\<close> is an instant, counted here in nanoseconds; \<^verbatim>\<open>time.Duration\<close> is an
  int64 count of nanoseconds. \<^verbatim>\<open>Time.Sub\<close> saturates at the ends of the int64 range.
\<close>

type_synonym time = int
type_synonym duration = int

definition Second :: duration where
  "Second = 1000000000"

definition Minute :: duration where
  "Minute = 60 * Second"

definition minDuration :: duration where
  "minDuration = - (2 ^ 63)"

definition maxDuration :: duration where
  "maxDuration = 2 ^ 63 - 1"

definition time_Sub :: "time \<Rightarrow> time \<Rightarrow> duration" where
  "time_Sub t u =
     (if t - u < minDuration then minDuration
      else if maxDuration < t - u then maxDuration
      else t - u)"

text \<open>\<^verbatim>\<open>time.Since(t)\<close> is \<^verbatim>\<open>time.Now().Sub(t)\<close>; the clock reading is the first argument.\<close>

definition time_Since :: "time \<Rightarrow> time \<Rightarrow> duration" where
  "time_Since now t = time_Sub now t"


section \<open>The heapster command: flags, sources, start-up\<close>

text \<open>
  \<^verbatim>\<open>flags.Uri\<close> is a scheme (\<^verbatim>\<open>Key\<close>) and a parsed URL (\<^verbatim>\<open>Val\<close>); \<^verbatim>\<open>flags.Uris\<close> is
  a slice of them. The URL type is left open.
\<close>

record 'u Uri =
  Key :: string
  Val :: 'u

text \<open>
  \<^verbatim>\<open>strings.SplitN(s, ".", 2)\<close>: the text before the first dot and the text after it, or
  \<open>s\<close> alone when it has no dot.
\<close>

fun cut_dot :: "string \<Rightarrow> (string \<times> string) option" where
  "cut_dot [] = None"
| "cut_dot (c # cs) =
     (if c = CHR ''.'' then Some ([], cs)
      else (case cut_dot cs of None \<Rightarrow> None | Some (a, b) \<Rightarrow> Some (c # a, b)))"

definition SplitN_dot_2 :: "string \<Rightarrow> string list" where
  "SplitN_dot_2 s = (case cut_dot s of None \<Rightarrow> [s] | Some (a, b) \<Rightarrow> [a, b])"

text \<open>
  \<^verbatim>\<open>getKubernetesAddress\<close>: the loop over the source URIs returns at the first one whose
  scheme, cut at the first dot, is \<^verbatim>\<open>kubernetes\<close>. Indexing the split at 0 is a branch of
  its own (a panic on an empty slice).
\<close>

fun getKubernetesAddress :: "'u Uri list \<Rightarrow> 'u result" where
  "getKubernetesAddress [] = Error ''No kubernetes source found.''"
| "getKubernetesAddress (uri # args) =
     (case SplitN_dot_2 (Key uri) of
        [] \<Rightarrow> Panic ''index out of range''
      | k # _ \<Rightarrow> if k = ''kubernetes'' then Ok (Val uri) else getKubernetesAddress args)"

text \<open>
  The words of the specification for the same function: a source is a kubernetes source
  when its scheme, truncated at the first dot, equals \<^verbatim>\<open>kubernetes\<close>.
\<close>

definition is_kubernetes_source :: "'u Uri \<Rightarrow> bool" where
  "is_kubernetes_source uri = (takeWhile (\<lambda>c. c \<noteq> CHR ''.'') (Key uri) = ''kubernetes'')"

text \<open>The command-line flags that \<^verbatim>\<open>validateFlags\<close> and \<^verbatim>\<open>main\<close> read.\<close>

record Flags =
  argMetricResolution :: "64 word"
  argTLSCertFile :: string
  argTLSKeyFile :: string
  argTLSClientCAFile :: string
  argAllowedUsers :: string

definition validateFlags :: "Flags \<Rightarrow> go_error" where
  "validateFlags f =
     (if sint (argMetricResolution f) < 5 * Second then
        Some (''metric resolution needs to be greater than 5 seconds - ''
              @ fmt_d (sint (argMetricResolution f)))
      else if (length (argTLSCertFile f) > 0 \<and> length (argTLSKeyFile f) = 0)
            \<or> (length (argTLSCertFile f) = 0 \<and> length (argTLSKeyFile f) > 0) then
        Some ''both TLS certificate & key are required to enable TLS serving''
      else if length (argTLSClientCAFile f) > 0 \<and> length (argTLSCertFile f) = 0 then
        Some ''client cert authentication requires TLS certificate & key''
      else None)"


text \<open>
  What \<^verbatim>\<open>main\<close> calls outside this file, each reduced to the result \<^verbatim>\<open>main\<close> tests:
  the source factory, the source manager, the sink factory (whether it returned a metric
  sink), the sink manager, the main manager, the pod lister and the two authorising
  handlers.
\<close>

record 'u Env =
  sources_BuildAll :: "'u Uri list \<Rightarrow> go_error"
  NewSourceManager :: go_error
  metricSink_not_nil :: bool
  NewDataSinkManager :: go_error
  NewManager :: go_error
  getPodLister :: "'u \<Rightarrow> go_error"
  newAuthHandler_pprof :: go_error
  newAuthHandler_prom :: go_error

text \<open>
  \<^verbatim>\<open>main\<close> either ends in \<^verbatim>\<open>glog.Fatal\<close> with a message, panics, or reaches one of its
  three blocking serve calls.
\<close>

datatype serving = ListenAndServeTLS_RequestClientCert | ListenAndServeTLS | ListenAndServe

datatype startup = Fatal string | Panicked string | Serves serving

definition serveTLS :: "Flags \<Rightarrow> startup" where
  "serveTLS f =
     (if length (argAllowedUsers f) > 0 then Serves ListenAndServeTLS_RequestClientCert
      else Serves ListenAndServeTLS)"

definition serve :: "'u Env \<Rightarrow> Flags \<Rightarrow> startup" where
  "serve env f =
     (if length (argTLSCertFile f) > 0 \<and> length (argTLSKeyFile f) > 0 then
        (if length (argTLSClientCAFile f) > 0 then
           (case newAuthHandler_pprof env of
              Some err \<Rightarrow> Fatal (''Failed to create authorized pprof handler: '' @ err)
            | None \<Rightarrow>
           (case newAuthHandler_prom env of
              Some err \<Rightarrow> Fatal (''Failed to create authorized prometheus handler: '' @ err)
            | None \<Rightarrow> serveTLS f))
         else serveTLS f)
      else Serves ListenAndServe)"

definition main :: "'u Env \<Rightarrow> Flags \<Rightarrow> 'u Uri list \<Rightarrow> startup" where
  "main env f argSources =
     (case validateFlags f of
        Some err \<Rightarrow> Fatal err
      | None \<Rightarrow>
     if length argSources \<noteq> 1 then Fatal ''Wrong number of sources specified''
     else
     (case sources_BuildAll env argSources of
        Some err \<Rightarrow> Fatal (''Failed to create source provide: '' @ err)
      | None \<Rightarrow>
     (case NewSourceManager env of
        Some err \<Rightarrow> Fatal (''Failed to create source manager: '' @ err)
      | None \<Rightarrow>
     if \<not> metricSink_not_nil env then Fatal ''Failed to create metric sink''
     else
     (case NewDataSinkManager env of
        Some err \<Rightarrow> Fatal (''Failed to created sink manager: '' @ err)
      | None \<Rightarrow>
     (case getKubernetesAddress argSources of
        Error err \<Rightarrow> Fatal (''Failed to get kubernetes address: '' @ err)
      | Panic p \<Rightarrow> Panicked p
      | Ok kubernetesUrl \<Rightarrow>
     (case NewManager env of
        Some err \<Rightarrow> Fatal (''Failed to create main manager: '' @ err)
      | None \<Rightarrow>
     (case getPodLister env kubernetesUrl of
        Some err \<Rightarrow> Fatal (''Failed to create podLister: '' @ err)
      | None \<Rightarrow> serve env f)))))))"


text \<open>
  Two inputs for the examples: the default values of the flags, as \<^verbatim>\<open>flag.Duration\<close> and
  \<^verbatim>\<open>flag.String\<close> declare them, and collaborators that all succeed.
\<close>

definition default_flags :: Flags where
  "default_flags =
     \<lparr>argMetricResolution = 60000000000, argTLSCertFile = [], argTLSKeyFile = [],
      argTLSClientCAFile = [], argAllowedUsers = []\<rparr>"

definition succeeding_env :: "'u Env" where
  "succeeding_env =
     \<lparr>sources_BuildAll = (\<lambda>_. None), NewSourceManager = None, metricSink_not_nil = True,
      NewDataSinkManager = None, NewManager = None, getPodLister = (\<lambda>_. None),
      newAuthHandler_pprof = None, newAuthHandler_prom = None\<rparr>"


section \<open>The API server's health check\<close>

text \<open>
  \<^verbatim>\<open>core.DataBatch\<close>: the timestamp of a tick and the metric sets by key. The checker reads
  the timestamp and the number of keys only, so the type of a metric set is left open. A Go
  map is finite; \<^verbatim>\<open>len\<close> of it is the number of its keys.
\<close>

record 'ms DataBatch =
  Timestamp :: time
  MetricSets :: "(string, 'ms) fmap"

definition len_map :: "('k, 'v) fmap \<Rightarrow> nat" where
  "len_map m = fcard (fmdom m)"

definition minMetricsCount :: nat where
  "minMetricsCount = 1"

definition maxMetricsDelay :: duration where
  "maxMetricsDelay = 3 * Minute"

text \<open>
  The function that \<^verbatim>\<open>healthzChecker\<close> registers. Its inputs are what it reads from
  outside: \<^verbatim>\<open>Time.String\<close> (the rendering of a timestamp), the clock, and the pointer that
  \<^verbatim>\<open>GetLatestDataBatch\<close> returned.
\<close>

definition healthzChecker ::
  "(time \<Rightarrow> string) \<Rightarrow> time \<Rightarrow> 'ms DataBatch option \<Rightarrow> go_error" where
  "healthzChecker time_String now batch =
     (case batch of
        None \<Rightarrow> Some ''could not get the latest data batch''
      | Some b \<Rightarrow>
          if time_Since now (Timestamp b) > maxMetricsDelay then
            Some (''No current data batch available (latest: ''
                  @ time_String (Timestamp b) @ '').'')
          else if len_map (MetricSets b) < minMetricsCount then
            Some (''Not enough metrics found in the latest data batch: ''
                  @ fmt_d (int (len_map (MetricSets b)))
                  @ '' (expected min. '' @ fmt_d (int minMetricsCount) @ '') ''
                  @ time_String (Timestamp b))
          else None)"

text \<open>
  The handler of the package healthz that serves \<^verbatim>\<open>/healthz\<close> answers
  \<^verbatim>\<open>http.StatusInternalServerError\<close> when the check returns an error and
  \<^verbatim>\<open>http.StatusOK\<close> when it returns nil.
\<close>

definition http_StatusOK :: nat where
  "http_StatusOK = 200"

definition http_StatusInternalServerError :: nat where
  "http_StatusInternalServerError = 500"

definition healthz_status :: "go_error \<Rightarrow> nat" where
  "healthz_status err =
     (case err of None \<Rightarrow> http_StatusOK | Some _ \<Rightarrow> http_StatusInternalServerError)"


section \<open>The elasticsearch events sink\<close>

text \<open>
  The fields of \<^verbatim>\<open>kube_api.Event\<close> that the sink reads, and the keys of the three labels
  of the package core that it writes.
\<close>

record Event =
  Event_UID :: string
  LastTimestamp :: time
  InvolvedObject_Kind :: string
  InvolvedObject_UID :: string
  InvolvedObject_Name :: string
  Source_Host :: string

record LabelKeys =
  LabelPodId_Key :: string
  LabelPodName_Key :: string
  LabelHostname_Key :: string

record EsSinkPoint =
  EventValue :: string
  EventTimestamp :: time
  EventTags :: "string \<rightharpoonup> string"

record EventBatch =
  Events :: "Event option list"

definition nil_dereference :: string where
  "nil_dereference = ''invalid memory address or nil pointer dereference''"

text \<open>
  \<^verbatim>\<open>json.MarshalIndent\<close> is an input: given the event pointer it returns the bytes and an
  error, as in Go.
\<close>

type_synonym marshaller = "Event option \<Rightarrow> string \<times> go_error"

definition getEventValue :: "marshaller \<Rightarrow> Event option \<Rightarrow> string \<times> go_error" where
  "getEventValue json_MarshalIndent event =
     (case json_MarshalIndent event of
        (bytes, Some err) \<Rightarrow> ([], Some err)
      | (bytes, None) \<Rightarrow> (bytes, None))"

definition eventToPoint ::
  "LabelKeys \<Rightarrow> marshaller \<Rightarrow> Event option \<Rightarrow> (EsSinkPoint option \<times> go_error) result" where
  "eventToPoint lk json_MarshalIndent event =
     (case getEventValue json_MarshalIndent event of
        (v, Some err) \<Rightarrow> Ok (None, Some err)
      | (v, None) \<Rightarrow>
          (case event of
             None \<Rightarrow> Panic nil_dereference
           | Some e \<Rightarrow>
               let tags0 = [''eventID'' \<mapsto> Event_UID e];
                   tags1 = (if InvolvedObject_Kind e = ''Pod''
                            then tags0(LabelPodId_Key lk \<mapsto> InvolvedObject_UID e,
                                       LabelPodName_Key lk \<mapsto> InvolvedObject_Name e)
                            else tags0);
                   tags2 = tags1(LabelHostname_Key lk \<mapsto> Source_Host e)
               in Ok (Some \<lparr>EventValue = v, EventTimestamp = LastTimestamp e,
                              EventTags = tags2\<rparr>, None)))"

text \<open>
  What \<^verbatim>\<open>ExportEvents\<close> does to the outside, in order: warnings logged, calls of the
  sink's \<^verbatim>\<open>saveData\<close>, the final \<^verbatim>\<open>flushData\<close>. The result of \<^verbatim>\<open>saveData\<close> is an input.
  The mutex is not modelled.
\<close>

datatype action = Warning string | SaveData time "EsSinkPoint list" | FlushData

fun export_loop ::
  "LabelKeys \<Rightarrow> marshaller \<Rightarrow> (time \<Rightarrow> EsSinkPoint list \<Rightarrow> go_error) \<Rightarrow>
   Event option list \<Rightarrow> action list \<Rightarrow> action list result" where
  "export_loop lk json_MarshalIndent saveData [] trace = Ok trace"
| "export_loop lk json_MarshalIndent saveData (event # events) trace =
     (case eventToPoint lk json_MarshalIndent event of
        Panic p \<Rightarrow> Panic p
      | Error e \<Rightarrow> Error e
      | Ok (point, err) \<Rightarrow>
          let trace1 = (case err of
                         Some e \<Rightarrow> trace @ [Warning (''Failed to convert event to point: '' @ e)]
                       | None \<Rightarrow> trace)
          in (case point of
                None \<Rightarrow> Panic nil_dereference
              | Some pt \<Rightarrow>
                  let trace2 = trace1 @ [SaveData (EventTimestamp pt) [pt]];
                      trace3 = (case saveData (EventTimestamp pt) [pt] of
                                 Some e \<Rightarrow> trace2 @ [Warning
                                   (''Failed to export data to ElasticSearch sink: '' @ e)]
                               | None \<Rightarrow> trace2)
                  in export_loop lk json_MarshalIndent saveData events trace3))"

definition ExportEvents ::
  "LabelKeys \<Rightarrow> marshaller \<Rightarrow> (time \<Rightarrow> EsSinkPoint list \<Rightarrow> go_error) \<Rightarrow>
   EventBatch option \<Rightarrow> action list result" where
  "ExportEvents lk json_MarshalIndent saveData eventBatch =
     (case eventBatch of
        None \<Rightarrow> Panic nil_dereference
      | Some b \<Rightarrow>
          (case export_loop lk json_MarshalIndent saveData (Events b) [] of
             Ok trace \<Rightarrow> Ok (trace @ [FlushData])
           | Error e \<Rightarrow> Error e
           | Panic p \<Rightarrow> Panic p))"


text \<open>
  Inputs for the examples: the label keys, one event about a pod, a serialiser that fails on
  every event, one that succeeds, and a \<^verbatim>\<open>saveData\<close> that succeeds.
\<close>

definition example_label_keys :: LabelKeys where
  "example_label_keys =
     \<lparr>LabelPodId_Key = ''pod_id'', LabelPodName_Key = ''pod_name'',
      LabelHostname_Key = ''hostname''\<rparr>"

definition example_event :: Event where
  "example_event =
     \<lparr>Event_UID = ''e1'', LastTimestamp = 5, InvolvedObject_Kind = ''Pod'',
      InvolvedObject_UID = ''p1'', InvolvedObject_Name = ''pod'', Source_Host = ''host''\<rparr>"

definition failing_MarshalIndent :: marshaller where
  "failing_MarshalIndent event = ([], Some ''json: unsupported value'')"

definition succeeding_MarshalIndent :: marshaller where
  "succeeding_MarshalIndent event = (''{}'', None)"

definition succeeding_saveData :: "time \<Rightarrow> EsSinkPoint list \<Rightarrow> go_error" where
  "succeeding_saveData date sinkData = None"


section \<open>The summary source: decoding a Summary document\<close>

text \<open>
  The decoder of the per-node summary source (\<^verbatim>\<open>decodeSummary\<close> and the functions it calls,
  with the metric model of the package core) is not among the source files; its test is.
  This section models it from the specification's data model and decoding rules, with the
  names the test uses. Each definition says so.
\<close>

text \<open>Modelled from the spec: the metric descriptors, by the names the test of the decoder
  uses for them (the file that declares them is missing).\<close>

datatype metric =
    MetricCpuUsage
  | MetricMemoryUsage | MetricMemoryWorkingSet | MetricMemoryRSS
  | MetricMemoryPageFaults | MetricMemoryMajorPageFaults
  | MetricNetworkRx | MetricNetworkRxErrors | MetricNetworkTx | MetricNetworkTxErrors
  | MetricFilesystemAvailable | MetricFilesystemLimit | MetricFilesystemUsage

text \<open>Modelled from the spec: a \<^verbatim>\<open>MetricValue\<close>, a single scalar sample (the missing
  package core declares it). The decoder produces integer samples only.\<close>

datatype MetricValue = IntValue "64 word"

text \<open>Modelled from the spec: a \<^verbatim>\<open>LabeledMetric\<close>, a metric value plus a label mapping
  (declared in the missing package core).\<close>

record LabeledMetric =
  MetricName :: metric
  MetricLabels :: "string \<rightharpoonup> string"
  LabeledValue :: MetricValue

text \<open>Modelled from the spec: a \<^verbatim>\<open>MetricSet\<close>, the bundle of metrics of one keyed entity
  (declared in the missing package core). The scrape time is left out: the decoding rules of
  the specification do not say how it is chosen.\<close>

record MetricSet =
  CreateTime :: time
  Labels :: "string \<rightharpoonup> string"
  MetricValues :: "metric \<rightharpoonup> MetricValue"
  LabeledMetrics :: "LabeledMetric list"

text \<open>Modelled from the spec: the key of the label that holds the type of a metric set (a
  constant of the missing package core).\<close>

definition LabelMetricSetType_Key :: string where
  "LabelMetricSetType_Key = ''type''"

text \<open>Modelled from the spec: the key of the label that tells the filesystems of one entity
  apart (a constant of the missing package core).\<close>

definition LabelResourceID_Key :: string where
  "LabelResourceID_Key = ''resource_id''"

text \<open>Modelled from the spec: the type of the metric set of a node (a constant of the missing
  package core).\<close>

definition MetricSetTypeNode :: string where
  "MetricSetTypeNode = ''node''"

text \<open>Modelled from the spec: the type of the metric set of a system container of a node (a
  constant of the missing package core), by the name the data model gives it.\<close>

definition MetricSetTypeSystemContainer :: string where
  "MetricSetTypeSystemContainer = ''node_container''"

text \<open>Modelled from the spec: the type of the metric set of a pod (a constant of the missing
  package core).\<close>

definition MetricSetTypePod :: string where
  "MetricSetTypePod = ''pod''"

text \<open>Modelled from the spec: the type of the metric set of a container of a pod (a constant
  of the missing package core).\<close>

definition MetricSetTypePodContainer :: string where
  "MetricSetTypePodContainer = ''pod_container''"

text \<open>Modelled from the spec: the key of a node in the key schema (a function of the missing
  package core).\<close>

definition NodeKey :: "string \<Rightarrow> string" where
  "NodeKey node = ''node:'' @ node"

text \<open>Modelled from the spec: the key of a system container of a node in the key schema (a
  function of the missing package core).\<close>

definition NodeContainerKey :: "string \<Rightarrow> string \<Rightarrow> string" where
  "NodeContainerKey node container = ''node:'' @ node @ ''/container:'' @ container"

text \<open>Modelled from the spec: the key of a pod in the key schema (a function of the missing
  package core).\<close>

definition PodKey :: "string \<Rightarrow> string \<Rightarrow> string" where
  "PodKey ns pod = ''namespace:'' @ ns @ ''/pod:'' @ pod"

text \<open>Modelled from the spec: the key of a container of a pod in the key schema (a function of
  the missing package core).\<close>

definition PodContainerKey :: "string \<Rightarrow> string \<Rightarrow> string \<Rightarrow> string" where
  "PodContainerKey ns pod container =
     ''namespace:'' @ ns @ ''/pod:'' @ pod @ ''/container:'' @ container"

text \<open>
  The Summary document of the kubelet's stats API, with the fields the test of the decoder
  fills in. A pointer field is an \<open>option\<close>.
\<close>

record CPUStats =
  UsageNanoCores :: "64 word option"
  UsageCoreNanoSeconds :: "64 word option"

record MemoryStats =
  MemoryAvailableBytes :: "64 word option"
  UsageBytes :: "64 word option"
  WorkingSetBytes :: "64 word option"
  RSSBytes :: "64 word option"
  PageFaults :: "64 word option"
  MajorPageFaults :: "64 word option"

record NetworkStats =
  RxBytes :: "64 word option"
  RxErrors :: "64 word option"
  TxBytes :: "64 word option"
  TxErrors :: "64 word option"

record FsStats =
  AvailableBytes :: "64 word option"
  CapacityBytes :: "64 word option"
  UsedBytes :: "64 word option"
  InodesFree :: "64 word option"
  InodesUsed :: "64 word option"
  Inodes :: "64 word option"

record VolumeStats =
  VolumeName :: string
  VolumeFsStats :: FsStats

record ContainerStats =
  ContainerName :: string
  ContainerStartTime :: time
  ContainerCPU :: "CPUStats option"
  ContainerMemory :: "MemoryStats option"
  Rootfs :: "FsStats option"
  Logs :: "FsStats option"

record PodStats =
  PodRef_Name :: string
  PodRef_Namespace :: string
  PodStartTime :: time
  PodNetwork :: "NetworkStats option"
  Containers :: "ContainerStats list"
  PodVolumeStats :: "VolumeStats list"

record NodeStats =
  NodeName :: string
  NodeStartTime :: time
  NodeCPU :: "CPUStats option"
  NodeMemory :: "MemoryStats option"
  NodeNetwork :: "NetworkStats option"
  SystemContainers :: "ContainerStats list"
  NodeFs :: "FsStats option"

record Summary =
  Node :: NodeStats
  Pods :: "PodStats list"

text \<open>Modelled from the spec: adding one metric value (a helper of the missing decoder). A
  null pointer means that the metric is absent: nothing is added.\<close>

definition addIntMetric ::
  "metric \<Rightarrow> 64 word option \<Rightarrow> (metric \<rightharpoonup> MetricValue) \<Rightarrow> (metric \<rightharpoonup> MetricValue)" where
  "addIntMetric m v vals = (case v of None \<Rightarrow> vals | Some x \<Rightarrow> vals(m \<mapsto> IntValue x))"

text \<open>Modelled from the spec: adding one labeled metric with the label \<^verbatim>\<open>resource_id\<close> (a
  helper of the missing decoder). A null pointer adds nothing.\<close>

definition addLabeledIntMetric ::
  "metric \<Rightarrow> string \<Rightarrow> 64 word option \<Rightarrow> LabeledMetric list \<Rightarrow> LabeledMetric list" where
  "addLabeledIntMetric m resource v lms =
     (case v of
        None \<Rightarrow> lms
      | Some x \<Rightarrow> lms @ [\<lparr>MetricName = m, MetricLabels = [LabelResourceID_Key \<mapsto> resource],
                           LabeledValue = IntValue x\<rparr>])"

text \<open>Modelled from the spec: the metric values of CPU statistics (missing decoder). The test
  reads the cumulative usage from \<^verbatim>\<open>UsageCoreNanoSeconds\<close>.\<close>

definition decodeCPUStats ::
  "CPUStats option \<Rightarrow> (metric \<rightharpoonup> MetricValue) \<Rightarrow> (metric \<rightharpoonup> MetricValue)" where
  "decodeCPUStats cpu vals =
     (case cpu of
        None \<Rightarrow> vals
      | Some c \<Rightarrow> addIntMetric MetricCpuUsage (UsageCoreNanoSeconds c) vals)"

text \<open>Modelled from the spec: the metric values of memory statistics (missing decoder), the
  five the test reads.\<close>

definition decodeMemoryStats ::
  "MemoryStats option \<Rightarrow> (metric \<rightharpoonup> MetricValue) \<Rightarrow> (metric \<rightharpoonup> MetricValue)" where
  "decodeMemoryStats memory vals =
     (case memory of
        None \<Rightarrow> vals
      | Some m \<Rightarrow>
          addIntMetric MetricMemoryMajorPageFaults (MajorPageFaults m)
            (addIntMetric MetricMemoryPageFaults (PageFaults m)
              (addIntMetric MetricMemoryRSS (RSSBytes m)
                (addIntMetric MetricMemoryWorkingSet (WorkingSetBytes m)
                  (addIntMetric MetricMemoryUsage (UsageBytes m) vals)))))"

text \<open>Modelled from the spec: the metric values of network statistics (missing decoder), the
  four the test reads.\<close>

definition decodeNetworkStats ::
  "NetworkStats option \<Rightarrow> (metric \<rightharpoonup> MetricValue) \<Rightarrow> (metric \<rightharpoonup> MetricValue)" where
  "decodeNetworkStats network vals =
     (case network of
        None \<Rightarrow> vals
      | Some n \<Rightarrow>
          addIntMetric MetricNetworkTxErrors (TxErrors n)
            (addIntMetric MetricNetworkTx (TxBytes n)
              (addIntMetric MetricNetworkRxErrors (RxErrors n)
                (addIntMetric MetricNetworkRx (RxBytes n) vals))))"

text \<open>Modelled from the spec: the labeled metrics of one filesystem (missing decoder):
  available, limit (the capacity) and usage, each labeled with the resource.\<close>

definition decodeFsStats ::
  "string \<Rightarrow> FsStats option \<Rightarrow> LabeledMetric list \<Rightarrow> LabeledMetric list" where
  "decodeFsStats resource fs lms =
     (case fs of
        None \<Rightarrow> lms
      | Some f \<Rightarrow>
          addLabeledIntMetric MetricFilesystemUsage resource (UsedBytes f)
            (addLabeledIntMetric MetricFilesystemLimit resource (CapacityBytes f)
              (addLabeledIntMetric MetricFilesystemAvailable resource (AvailableBytes f) lms)))"

text \<open>Modelled from the spec: the canonical names of the system containers (missing decoder):
  \<^verbatim>\<open>kubelet\<close> stays \<^verbatim>\<open>kubelet\<close>, \<^verbatim>\<open>runtime\<close> becomes \<^verbatim>\<open>docker-daemon\<close>, \<^verbatim>\<open>misc\<close>
  becomes \<^verbatim>\<open>system\<close>, any other name passes through.\<close>

definition getSystemContainerName :: "string \<Rightarrow> string" where
  "getSystemContainerName name =
     (if name = ''kubelet'' then ''kubelet''
      else if name = ''runtime'' then ''docker-daemon''
      else if name = ''misc'' then ''system''
      else name)"

text \<open>Modelled from the spec: the metric set of one container (missing decoder): CPU, memory,
  and the filesystems rootfs (resource \<^verbatim>\<open>/\<close>) and logs (resource \<^verbatim>\<open>logs\<close>); the create
  time is the container's start.\<close>

definition decodeContainerStats :: "string \<Rightarrow> ContainerStats \<Rightarrow> MetricSet" where
  "decodeContainerStats set_type container =
     \<lparr>CreateTime = ContainerStartTime container,
      Labels = [LabelMetricSetType_Key \<mapsto> set_type],
      MetricValues =
        decodeMemoryStats (ContainerMemory container)
          (decodeCPUStats (ContainerCPU container) Map.empty),
      LabeledMetrics =
        decodeFsStats ''logs'' (Logs container) (decodeFsStats ''/'' (Rootfs container) [])\<rparr>"

text \<open>Modelled from the spec: the metric set of the node itself (missing decoder): CPU, memory,
  network and the root filesystem.\<close>

definition nodeMetricSet :: "NodeStats \<Rightarrow> MetricSet" where
  "nodeMetricSet node =
     \<lparr>CreateTime = NodeStartTime node,
      Labels = [LabelMetricSetType_Key \<mapsto> MetricSetTypeNode],
      MetricValues =
        decodeNetworkStats (NodeNetwork node)
          (decodeMemoryStats (NodeMemory node) (decodeCPUStats (NodeCPU node) Map.empty)),
      LabeledMetrics = decodeFsStats ''/'' (NodeFs node) []\<rparr>"

text \<open>Modelled from the spec: the prefix of the resource of a volume's filesystem (a constant
  of the missing package core).\<close>

definition VolumeResourcePrefix :: string where
  "VolumeResourcePrefix = ''Volume:''"

text \<open>Modelled from the spec: the metric set of a pod (missing decoder): network, and for each
  volume its filesystem statistics under the resource \<^verbatim>\<open>Volume:<name>\<close>.\<close>

definition podMetricSet :: "PodStats \<Rightarrow> MetricSet" where
  "podMetricSet pod =
     \<lparr>CreateTime = PodStartTime pod,
      Labels = [LabelMetricSetType_Key \<mapsto> MetricSetTypePod],
      MetricValues = decodeNetworkStats (PodNetwork pod) Map.empty,
      LabeledMetrics =
        fold (\<lambda>vol lms. decodeFsStats (VolumeResourcePrefix @ VolumeName vol)
                          (Some (VolumeFsStats vol)) lms)
          (PodVolumeStats pod) []\<rparr>"

text \<open>Modelled from the spec: a terminated container (missing decoder): an entry of a pod's
  container list that has a sibling of the same name with a greater start time. The sentence
  of the specification calls the later entry terminated in its parenthesis and then keeps the
  greatest start time; its scenario and the test keep the later entry, as here.\<close>

definition terminated :: "ContainerStats list \<Rightarrow> ContainerStats \<Rightarrow> bool" where
  "terminated siblings c =
     list_ex (\<lambda>c'. ContainerName c' = ContainerName c
                  \<and> ContainerStartTime c < ContainerStartTime c') siblings"

text \<open>Modelled from the spec: decoding the node (missing decoder): the node's own set under
  its node key, then one set per system container under the canonical name.\<close>

definition decodeNodeStats ::
  "NodeStats \<Rightarrow> (string, MetricSet) fmap \<Rightarrow> (string, MetricSet) fmap" where
  "decodeNodeStats node metrics =
     fold (\<lambda>c. fmupd (NodeContainerKey (NodeName node) (getSystemContainerName (ContainerName c)))
                  (decodeContainerStats MetricSetTypeSystemContainer c))
       (SystemContainers node)
       (fmupd (NodeKey (NodeName node)) (nodeMetricSet node) metrics)"

text \<open>Modelled from the spec: decoding one pod (missing decoder): the pod's own set under its
  pod key, then one set per container that is not terminated.\<close>

definition decodePodStats ::
  "PodStats \<Rightarrow> (string, MetricSet) fmap \<Rightarrow> (string, MetricSet) fmap" where
  "decodePodStats pod metrics =
     fold (\<lambda>c. fmupd (PodContainerKey (PodRef_Namespace pod) (PodRef_Name pod) (ContainerName c))
                  (decodeContainerStats MetricSetTypePodContainer c))
       (filter (\<lambda>c. \<not> terminated (Containers pod) c) (Containers pod))
       (fmupd (PodKey (PodRef_Namespace pod) (PodRef_Name pod)) (podMetricSet pod) metrics)"

text \<open>Modelled from the spec: \<^verbatim>\<open>decodeSummary\<close> (missing decoder): the node, then the pods
  in the order of the document, into one map from key to metric set.\<close>

definition decodeSummary :: "Summary \<Rightarrow> (string, MetricSet) fmap" where
  "decodeSummary summary =
     fold decodePodStats (Pods summary) (decodeNodeStats (Node summary) fmempty)"

text \<open>The keys that decoding one pod writes.\<close>

definition pod_keys :: "PodStats \<Rightarrow> string list" where
  "pod_keys pod =
     PodKey (PodRef_Namespace pod) (PodRef_Name pod)
     # map (\<lambda>c. PodContainerKey (PodRef_Namespace pod) (PodRef_Name pod) (ContainerName c))
         (Containers pod)"


text \<open>The labeled metrics that one volume of a pod contributes to the pod's metric set.\<close>

definition volume_metrics :: "VolumeStats \<Rightarrow> LabeledMetric list" where
  "volume_metrics vol =
     decodeFsStats (VolumeResourcePrefix @ VolumeName vol) (Some (VolumeFsStats vol)) []"


section \<open>The inputs of the decoder's tests\<close>

text \<open>
  The document that \<^verbatim>\<open>TestDecodeSummaryMetrics\<close> decodes and the one that
  \<^verbatim>\<open>TestScrapeSummaryMetrics\<close> serves, built by the generators of the test file. The test's
  \<^verbatim>\<open>startTime\<close> (a reading of the clock) is a parameter.
\<close>

definition uint64Val :: "int \<Rightarrow> int \<Rightarrow> 64 word option" where
  "uint64Val seed offset = Some (word_of_int (seed + offset))"

definition offsetCPUUsageCores :: int where "offsetCPUUsageCores = 0"
definition offsetCPUUsageCoreSeconds :: int where "offsetCPUUsageCoreSeconds = 1"
definition offsetMemPageFaults :: int where "offsetMemPageFaults = 2"
definition offsetMemMajorPageFaults :: int where "offsetMemMajorPageFaults = 3"
definition offsetMemUsageBytes :: int where "offsetMemUsageBytes = 4"
definition offsetMemRSSBytes :: int where "offsetMemRSSBytes = 5"
definition offsetMemWorkingSetBytes :: int where "offsetMemWorkingSetBytes = 6"
definition offsetNetRxBytes :: int where "offsetNetRxBytes = 7"
definition offsetNetRxErrors :: int where "offsetNetRxErrors = 8"
definition offsetNetTxBytes :: int where "offsetNetTxBytes = 9"
definition offsetNetTxErrors :: int where "offsetNetTxErrors = 10"
definition offsetFsUsed :: int where "offsetFsUsed = 11"
definition offsetFsCapacity :: int where "offsetFsCapacity = 12"
definition offsetFsAvailable :: int where "offsetFsAvailable = 13"

definition genTestSummaryFsStats :: "int \<Rightarrow> FsStats" where
  "genTestSummaryFsStats seed =
     \<lparr>AvailableBytes = uint64Val seed offsetFsAvailable,
      CapacityBytes = uint64Val seed offsetFsCapacity,
      UsedBytes = uint64Val seed offsetFsUsed,
      InodesFree = None, InodesUsed = None, Inodes = None\<rparr>"

definition genTestSummaryNetwork :: "int \<Rightarrow> NetworkStats" where
  "genTestSummaryNetwork seed =
     \<lparr>RxBytes = uint64Val seed offsetNetRxBytes,
      RxErrors = uint64Val seed offsetNetRxErrors,
      TxBytes = uint64Val seed offsetNetTxBytes,
      TxErrors = uint64Val seed offsetNetTxErrors\<rparr>"

definition genTestSummaryMemory :: "int \<Rightarrow> MemoryStats" where
  "genTestSummaryMemory seed =
     \<lparr>MemoryAvailableBytes = None,
      UsageBytes = uint64Val seed offsetMemUsageBytes,
      WorkingSetBytes = uint64Val seed offsetMemWorkingSetBytes,
      RSSBytes = uint64Val seed offsetMemRSSBytes,
      PageFaults = uint64Val seed offsetMemPageFaults,
      MajorPageFaults = uint64Val seed offsetMemMajorPageFaults\<rparr>"

definition genTestSummaryZeroMemory :: "int \<Rightarrow> MemoryStats" where
  "genTestSummaryZeroMemory seed =
     \<lparr>MemoryAvailableBytes = None,
      UsageBytes = uint64Val seed (- seed),
      WorkingSetBytes = uint64Val seed offsetMemWorkingSetBytes,
      RSSBytes = uint64Val seed offsetMemRSSBytes,
      PageFaults = uint64Val seed offsetMemPageFaults,
      MajorPageFaults = uint64Val seed offsetMemMajorPageFaults\<rparr>"

definition genTestSummaryCPU :: "int \<Rightarrow> CPUStats" where
  "genTestSummaryCPU seed =
     \<lparr>UsageNanoCores = map_option (\<lambda>v. v * 1000000) (uint64Val seed offsetCPUUsageCores),
      UsageCoreNanoSeconds = uint64Val seed offsetCPUUsageCoreSeconds\<rparr>"

definition genTestSummaryZeroCPU :: "int \<Rightarrow> CPUStats" where
  "genTestSummaryZeroCPU seed =
     \<lparr>UsageNanoCores = uint64Val seed (- seed),
      UsageCoreNanoSeconds =
        map_option (\<lambda>v. v * 1000000) (uint64Val seed offsetCPUUsageCoreSeconds)\<rparr>"

definition genTestSummaryContainer :: "time \<Rightarrow> string \<Rightarrow> int \<Rightarrow> ContainerStats" where
  "genTestSummaryContainer startTime name seed =
     \<lparr>ContainerName = name,
      ContainerStartTime = startTime,
      ContainerCPU = Some (genTestSummaryCPU seed),
      ContainerMemory = Some (genTestSummaryMemory seed),
      Rootfs = Some (genTestSummaryFsStats seed),
      Logs = Some (genTestSummaryFsStats seed)\<rparr>"

definition genTestSummaryTerminatedContainer :: "time \<Rightarrow> string \<Rightarrow> int \<Rightarrow> ContainerStats" where
  "genTestSummaryTerminatedContainer startTime name seed =
     \<lparr>ContainerName = name,
      ContainerStartTime = startTime - Minute,
      ContainerCPU = Some (genTestSummaryZeroCPU seed),
      ContainerMemory = Some (genTestSummaryZeroMemory seed),
      Rootfs = Some (genTestSummaryFsStats seed),
      Logs = Some (genTestSummaryFsStats seed)\<rparr>"

definition testPod0 :: "time \<Rightarrow> PodStats" where
  "testPod0 startTime =
     \<lparr>PodRef_Name = ''pod0'', PodRef_Namespace = ''test0'',
      PodStartTime = startTime,
      PodNetwork = Some (genTestSummaryNetwork 1000),
      Containers =
        [genTestSummaryContainer startTime ''c0'' 2000,
         genTestSummaryContainer startTime ''c1'' 2001,
         genTestSummaryTerminatedContainer startTime ''c0'' 2000],
      PodVolumeStats = []\<rparr>"

definition testPod1 :: "time \<Rightarrow> PodStats" where
  "testPod1 startTime =
     \<lparr>PodRef_Name = ''pod1'', PodRef_Namespace = ''test0'',
      PodStartTime = startTime,
      PodNetwork = Some (genTestSummaryNetwork 3000),
      Containers = [genTestSummaryContainer startTime ''c0'' 4000],
      PodVolumeStats =
        [\<lparr>VolumeName = ''A'', VolumeFsStats = genTestSummaryFsStats 3000\<rparr>,
         \<lparr>VolumeName = ''B'', VolumeFsStats = genTestSummaryFsStats 3000\<rparr>]\<rparr>"

definition testPod2 :: "time \<Rightarrow> PodStats" where
  "testPod2 startTime =
     \<lparr>PodRef_Name = ''pod0'', PodRef_Namespace = ''test1'',
      PodStartTime = startTime,
      PodNetwork = Some (genTestSummaryNetwork 5000),
      Containers =
        [genTestSummaryContainer startTime ''c1'' 6000,
         genTestSummaryContainer startTime ''runtime'' 7000],
      PodVolumeStats = []\<rparr>"

definition testSummary :: "time \<Rightarrow> Summary" where
  "testSummary startTime =
     \<lparr>Node =
        \<lparr>NodeName = ''test'',
         NodeStartTime = startTime,
         NodeCPU = Some (genTestSummaryCPU 0),
         NodeMemory = Some (genTestSummaryMemory 0),
         NodeNetwork = Some (genTestSummaryNetwork 0),
         SystemContainers =
           [genTestSummaryContainer startTime ''kubelet'' 200,
            genTestSummaryContainer startTime ''runtime'' 100,
            genTestSummaryContainer startTime ''misc'' 300],
         NodeFs = Some (genTestSummaryFsStats 0)\<rparr>,
      Pods = [testPod0 startTime, testPod1 startTime, testPod2 startTime]\<rparr>"

definition scrapeTestPod :: PodStats where
  "scrapeTestPod =
     \<lparr>PodRef_Name = ''my-pod'', PodRef_Namespace = ''my-namespace'',
      PodStartTime = 0,
      PodNetwork = None,
      Containers =
        [\<lparr>ContainerName = ''my-container'', ContainerStartTime = 0, ContainerCPU = None,
          ContainerMemory = Some
            \<lparr>MemoryAvailableBytes = uint64Val 1000 100, UsageBytes = uint64Val 1000 100,
             WorkingSetBytes = uint64Val 1000 100, RSSBytes = None, PageFaults = None,
             MajorPageFaults = None\<rparr>,
          Rootfs = None, Logs = None\<rparr>],
      PodVolumeStats =
        [\<lparr>VolumeName = ''data'',
          VolumeFsStats =
            \<lparr>AvailableBytes = uint64Val 1030 100, CapacityBytes = uint64Val 2453 100,
             UsedBytes = uint64Val 13240 100, InodesFree = uint64Val 10340 100,
             InodesUsed = uint64Val 103420 100, Inodes = uint64Val 103420 100\<rparr>\<rparr>]\<rparr>"

definition scrapeTestSummary :: "time \<Rightarrow> Summary" where
  "scrapeTestSummary startTime =
     \<lparr>Node =
        \<lparr>NodeName = ''test'', NodeStartTime = startTime, NodeCPU = None, NodeMemory = None,
         NodeNetwork = None, SystemContainers = [], NodeFs = None\<rparr>,
      Pods = [scrapeTestPod]\<rparr>"


section \<open>Properties of the flags and the sources\<close>

lemma cut_dot_None: "cut_dot s = None \<Longrightarrow> takeWhile (\<lambda>c. c \<noteq> CHR ''.'') s = s"
  by (induction s) (auto split: if_splits option.splits)

lemma cut_dot_Some: "cut_dot s = Some (a, b) \<Longrightarrow> takeWhile (\<lambda>c. c \<noteq> CHR ''.'') s = a"
  by (induction s arbitrary: a) (auto split: if_splits option.splits)

lemma SplitN_dot_2_head:
  "\<exists>rest. SplitN_dot_2 s = takeWhile (\<lambda>c. c \<noteq> CHR ''.'') s # rest"
  by (cases "cut_dot s") (auto simp: SplitN_dot_2_def cut_dot_None cut_dot_Some)

lemma getKubernetesAddress_step:
  "getKubernetesAddress (uri # args) =
     (if is_kubernetes_source uri then Ok (Val uri) else getKubernetesAddress args)"
proof -
  obtain rest where "SplitN_dot_2 (Key uri) = takeWhile (\<lambda>c. c \<noteq> CHR ''.'') (Key uri) # rest"
    using SplitN_dot_2_head by blast
  then show ?thesis
    by (simp add: is_kubernetes_source_def)
qed

lemma getKubernetesAddress_find:
  "getKubernetesAddress args =
     (case find is_kubernetes_source args of
        Some uri \<Rightarrow> Ok (Val uri)
      | None \<Rightarrow> Error ''No kubernetes source found.'')"
proof (induction args)
  case Nil
  show ?case by simp
next
  case (Cons uri args)
  show ?case
    unfolding getKubernetesAddress_step using Cons.IH by simp
qed

lemma find_None_Error:
  "((case find P args of Some uri \<Rightarrow> Ok (Val uri) | None \<Rightarrow> Error m) = Error m)
     = (\<forall>uri \<in> set args. \<not> P uri)"
  by (induction args) auto

text \<open>
  Claim C9. \<^verbatim>\<open>getKubernetesAddress\<close> returns the URL of the first source URI of the list
  whose scheme, truncated at the first dot, equals \<^verbatim>\<open>kubernetes\<close> (so the schemes
  \<^verbatim>\<open>kubernetes\<close> and \<^verbatim>\<open>kubernetes.summary_api\<close> both match), and it returns the error
  \<^verbatim>\<open>No kubernetes source found.\<close> exactly when the list holds no such URI.
\<close>

theorem getKubernetesAddress_first_match:
  "getKubernetesAddress args =
     (case find is_kubernetes_source args of
        Some uri \<Rightarrow> Ok (Val uri)
      | None \<Rightarrow> Error ''No kubernetes source found.'')
   \<and> ((getKubernetesAddress args = Error ''No kubernetes source found.'')
        = (\<forall>uri \<in> set args. \<not> is_kubernetes_source uri))
   \<and> is_kubernetes_source \<lparr>Key = ''kubernetes'', Val = u\<rparr>
   \<and> is_kubernetes_source \<lparr>Key = ''kubernetes.summary_api'', Val = u\<rparr>"
proof (intro conjI)
  show "getKubernetesAddress args =
     (case find is_kubernetes_source args of
        Some uri \<Rightarrow> Ok (Val uri)
      | None \<Rightarrow> Error ''No kubernetes source found.'')"
    by (rule getKubernetesAddress_find)
  show "(getKubernetesAddress args = Error ''No kubernetes source found.'')
        = (\<forall>uri \<in> set args. \<not> is_kubernetes_source uri)"
    unfolding getKubernetesAddress_find by (rule find_None_Error)
  show "is_kubernetes_source \<lparr>Key = ''kubernetes'', Val = u\<rparr>"
    by (simp add: is_kubernetes_source_def)
  show "is_kubernetes_source \<lparr>Key = ''kubernetes.summary_api'', Val = u\<rparr>"
    by (simp add: is_kubernetes_source_def)
qed

theorem getKubernetesAddress_first_match_witness:
  "getKubernetesAddress
     [\<lparr>Key = ''influxdb'', Val = ''http://db''\<rparr>,
      \<lparr>Key = ''kubernetes.summary_api'', Val = ''https://master''\<rparr>,
      \<lparr>Key = ''kubernetes'', Val = ''https://other''\<rparr>] = Ok ''https://master''
   \<and> getKubernetesAddress [\<lparr>Key = ''kubernetesx'', Val = ''https://master''\<rparr>]
       = Error ''No kubernetes source found.''"
  using getKubernetesAddress_first_match [of "[\<lparr>Key = ''influxdb'', Val = ''http://db''\<rparr>,
      \<lparr>Key = ''kubernetes.summary_api'', Val = ''https://master''\<rparr>,
      \<lparr>Key = ''kubernetes'', Val = ''https://other''\<rparr>]"]
    getKubernetesAddress_first_match [of "[\<lparr>Key = ''kubernetesx'', Val = ''https://master''\<rparr>]"]
  by (simp add: is_kubernetes_source_def)

text \<open>
  Claim C6. \<^verbatim>\<open>validateFlags\<close> returns an error, which \<^verbatim>\<open>main\<close> turns into a fatal exit
  whatever the sources and the collaborators are, if and only if the metric resolution is
  less than 5 seconds, or exactly one of the TLS certificate file and the TLS key file is
  given, or a TLS client CA file is given without a TLS certificate file; on every other
  combination of flags it returns nil.
\<close>

theorem validateFlags_error_iff:
  "((\<exists>err. validateFlags f = Some err
          \<and> (\<forall>(env :: 'u Env) argSources. main env f argSources = Fatal err))
      = (sint (argMetricResolution f) < 5 * Second
         \<or> ((argTLSCertFile f \<noteq> []) \<noteq> (argTLSKeyFile f \<noteq> []))
         \<or> (argTLSClientCAFile f \<noteq> [] \<and> argTLSCertFile f = [])))
   \<and> ((validateFlags f = None)
      = (\<not> (sint (argMetricResolution f) < 5 * Second
         \<or> ((argTLSCertFile f \<noteq> []) \<noteq> (argTLSKeyFile f \<noteq> []))
         \<or> (argTLSClientCAFile f \<noteq> [] \<and> argTLSCertFile f = []))))"
  by (auto simp: validateFlags_def main_def)

theorem validateFlags_error_iff_witness:
  "validateFlags \<lparr>argMetricResolution = 60000000000, argTLSCertFile = [],
       argTLSKeyFile = ''server.key'', argTLSClientCAFile = [], argAllowedUsers = []\<rparr>
     = Some ''both TLS certificate & key are required to enable TLS serving''
   \<and> validateFlags \<lparr>argMetricResolution = 5000000000, argTLSCertFile = ''server.crt'',
       argTLSKeyFile = ''server.key'', argTLSClientCAFile = ''ca.crt'',
       argAllowedUsers = []\<rparr> = None"
  using validateFlags_error_iff [where ?'u = string, of "\<lparr>argMetricResolution = 60000000000,
       argTLSCertFile = [], argTLSKeyFile = ''server.key'', argTLSClientCAFile = [],
       argAllowedUsers = []\<rparr>"]
    validateFlags_error_iff [where ?'u = string, of "\<lparr>argMetricResolution = 5000000000,
       argTLSCertFile = ''server.crt'', argTLSKeyFile = ''server.key'',
       argTLSClientCAFile = ''ca.crt'', argAllowedUsers = []\<rparr>"]
  by (simp add: validateFlags_def Second_def)


section \<open>Properties of start-up\<close>

lemma main_fatal_count:
  "validateFlags f = None \<Longrightarrow> length argSources \<noteq> 1 \<Longrightarrow>
     main env f argSources = Fatal ''Wrong number of sources specified''"
  by (simp add: main_def)

lemma main_Serves_one: "main env f argSources = Serves s \<Longrightarrow> length argSources = 1"
  by (cases "validateFlags f"; cases "length argSources = 1") (simp_all add: main_def)

lemma main_one_source:
  assumes "validateFlags f = None" "is_kubernetes_source uri"
    "sources_BuildAll env [uri] = None" "NewSourceManager env = None"
    "metricSink_not_nil env" "NewDataSinkManager env = None"
    "NewManager env = None" "getPodLister env (Val uri) = None"
  shows "main env f [uri] = serve env f"
proof -
  have "getKubernetesAddress [uri] = Ok (Val uri)"
    unfolding getKubernetesAddress_step using assms(2) by simp
  with assms show ?thesis
    by (simp add: main_def)
qed

text \<open>
  Claim C7, as stated, fails: with valid flags and every collaborator succeeding, a list of
  two kubernetes sources ends start-up in the fatal error of the source count check.
\<close>

theorem main_two_sources_fatal:
  "validateFlags default_flags = None
   \<and> main succeeding_env default_flags
       [\<lparr>Key = ''kubernetes'', Val = ''https://master''\<rparr>,
        \<lparr>Key = ''kubernetes.summary_api'', Val = ''https://master''\<rparr>]
     = Fatal ''Wrong number of sources specified''"
  by (simp add: main_def validateFlags_def Second_def default_flags_def)

lemma serve_handlers_succeed:
  assumes "newAuthHandler_pprof env = None" "newAuthHandler_prom env = None"
  shows "serve env f =
     Serves (if argTLSCertFile f \<noteq> [] \<and> argTLSKeyFile f \<noteq> [] then
               (if argAllowedUsers f \<noteq> [] then ListenAndServeTLS_RequestClientCert
                else ListenAndServeTLS)
             else ListenAndServe)"
  using assms by (simp add: serve_def serveTLS_def)

text \<open>
  Claim C7, amended. The flag \<^verbatim>\<open>--source\<close> is collected into a list, but start-up accepts
  exactly one source URI: with valid flags, a list of zero sources or of more than one source
  ends in the fatal error \<^verbatim>\<open>Wrong number of sources specified\<close>; start-up reaches a serve
  call only with a list of exactly one source; and with one kubernetes source, valid flags
  and every collaborator succeeding (the factories, the managers, the pod lister and the
  two authorising handlers) it does reach a serve call, the one the TLS flags select.
\<close>

theorem main_source_count:
  "(validateFlags f = None \<and> length argSources \<noteq> 1
      \<longrightarrow> main env f argSources = Fatal ''Wrong number of sources specified'')
   \<and> ((\<exists>s. main env f argSources = Serves s) \<longrightarrow> length argSources = 1)
   \<and> (validateFlags f = None \<and> is_kubernetes_source uri
        \<and> sources_BuildAll env [uri] = None \<and> NewSourceManager env = None
        \<and> metricSink_not_nil env \<and> NewDataSinkManager env = None
        \<and> NewManager env = None \<and> getPodLister env (Val uri) = None
        \<and> newAuthHandler_pprof env = None \<and> newAuthHandler_prom env = None
      \<longrightarrow> main env f [uri] =
            Serves (if argTLSCertFile f \<noteq> [] \<and> argTLSKeyFile f \<noteq> [] then
                      (if argAllowedUsers f \<noteq> [] then ListenAndServeTLS_RequestClientCert
                       else ListenAndServeTLS)
                    else ListenAndServe))"
proof (intro conjI impI)
  assume "validateFlags f = None \<and> length argSources \<noteq> 1"
  then show "main env f argSources = Fatal ''Wrong number of sources specified''"
    by (simp add: main_fatal_count)
next
  assume "\<exists>s. main env f argSources = Serves s"
  then show "length argSources = 1"
    using main_Serves_one by blast
next
  assume a: "validateFlags f = None \<and> is_kubernetes_source uri
        \<and> sources_BuildAll env [uri] = None \<and> NewSourceManager env = None
        \<and> metricSink_not_nil env \<and> NewDataSinkManager env = None
        \<and> NewManager env = None \<and> getPodLister env (Val uri) = None
        \<and> newAuthHandler_pprof env = None \<and> newAuthHandler_prom env = None"
  then have "main env f [uri] = serve env f"
    by (intro main_one_source) simp_all
  moreover have "serve env f =
     Serves (if argTLSCertFile f \<noteq> [] \<and> argTLSKeyFile f \<noteq> [] then
               (if argAllowedUsers f \<noteq> [] then ListenAndServeTLS_RequestClientCert
                else ListenAndServeTLS)
             else ListenAndServe)"
    using a by (intro serve_handlers_succeed) simp_all
  ultimately show "main env f [uri] =
            Serves (if argTLSCertFile f \<noteq> [] \<and> argTLSKeyFile f \<noteq> [] then
                      (if argAllowedUsers f \<noteq> [] then ListenAndServeTLS_RequestClientCert
                       else ListenAndServeTLS)
                    else ListenAndServe)"
    by simp
qed

theorem main_source_count_witness:
  "validateFlags default_flags = None
   \<and> main succeeding_env default_flags ([] :: string Uri list)
     = Fatal ''Wrong number of sources specified''
   \<and> main succeeding_env default_flags [\<lparr>Key = ''kubernetes'', Val = ''https://master''\<rparr>]
     = Serves ListenAndServe
   \<and> main succeeding_env
       (default_flags\<lparr>argTLSCertFile := ''server.crt'', argTLSKeyFile := ''server.key'',
                       argTLSClientCAFile := ''ca.crt''\<rparr>)
       [\<lparr>Key = ''kubernetes.summary_api'', Val = ''https://master''\<rparr>]
     = Serves ListenAndServeTLS"
  using main_source_count [of default_flags "[]" succeeding_env
       "\<lparr>Key = ''kubernetes'', Val = ''https://master''\<rparr>"]
    main_source_count [of "default_flags\<lparr>argTLSCertFile := ''server.crt'',
         argTLSKeyFile := ''server.key'', argTLSClientCAFile := ''ca.crt''\<rparr>" "[]"
       succeeding_env "\<lparr>Key = ''kubernetes.summary_api'', Val = ''https://master''\<rparr>"]
  by (simp add: validateFlags_def Second_def is_kubernetes_source_def
      default_flags_def succeeding_env_def)


section \<open>Properties of the health check\<close>

lemma time_Since_gt:
  "minDuration \<le> d \<Longrightarrow> d < maxDuration \<Longrightarrow> (time_Since now t > d) = (now - t > d)"
  by (auto simp: time_Since_def time_Sub_def)

lemma fmdom_fempty_iff: "(fmdom m = {||}) = (m = fmempty)"
proof
  assume d: "fmdom m = {||}"
  show "m = fmempty"
  proof (rule fmap_ext)
    fix x
    have "x |\<notin>| fmdom m" using d by simp
    then show "fmlookup m x = fmlookup fmempty x" by (simp add: fmdom_notD)
  qed
next
  assume "m = fmempty"
  then show "fmdom m = {||}" by simp
qed

lemma len_map_0: "(len_map m = 0) = (m = fmempty)"
  by (simp add: len_map_def fmdom_fempty_iff)

lemma maxMetricsDelay_bounds: "minDuration \<le> maxMetricsDelay \<and> maxMetricsDelay < maxDuration"
  by (simp add: maxMetricsDelay_def Minute_def Second_def minDuration_def maxDuration_def)

lemma healthzChecker_Some:
  "healthzChecker time_String now (Some b) =
     (if now - Timestamp b > 3 * Minute then
        Some (''No current data batch available (latest: '' @ time_String (Timestamp b) @ '').'')
      else if MetricSets b = fmempty then
        Some (''Not enough metrics found in the latest data batch: 0 (expected min. 1) ''
              @ time_String (Timestamp b))
      else None)"
proof -
  have gt: "(time_Since now (Timestamp b) > maxMetricsDelay) = (now - Timestamp b > 3 * Minute)"
    using time_Since_gt [of maxMetricsDelay now "Timestamp b"] maxMetricsDelay_bounds
    by (simp add: maxMetricsDelay_def)
  have lt: "(len_map (MetricSets b) < minMetricsCount) = (MetricSets b = fmempty)"
    using len_map_0 [of "MetricSets b"] by (auto simp: minMetricsCount_def)
  have z: "MetricSets b = fmempty \<Longrightarrow> fmt_d (int (len_map (MetricSets b))) = ''0''"
    by (simp add: len_map_def fmt_d_def fcard_fempty fmt_nat.simps)
  have one: "fmt_d (int minMetricsCount) = ''1''"
    by (simp add: minMetricsCount_def fmt_d_def fmt_nat.simps)
  show ?thesis
    unfolding healthzChecker_def option.case gt lt using z one by simp
qed

text \<open>
  Claim C1, as stated, fails at the boundary: a batch with one metric set whose timestamp is
  exactly 3 minutes old passes the check (HTTP 200), although it is not less than 3 minutes
  old.
\<close>

theorem healthzChecker_three_minutes_old_ok:
  "healthzChecker fmt_d 180000000000
       (Some \<lparr>Timestamp = 0, MetricSets = fmupd ''node:n'' () fmempty\<rparr>) = None
   \<and> healthz_status (healthzChecker fmt_d 180000000000
       (Some \<lparr>Timestamp = 0, MetricSets = fmupd ''node:n'' () fmempty\<rparr>)) = 200
   \<and> \<not> ((180000000000 :: int) - 0 < 3 * Minute)"
  by (simp add: healthzChecker_Some healthz_status_def http_StatusOK_def Minute_def Second_def)

text \<open>
  Claim C1, amended. The health check returns success (HTTP 200) if and only if
  \<^verbatim>\<open>GetLatestDataBatch\<close> returns a non-null batch whose timestamp is at most 3 minutes old
  and which contains at least one metric set; otherwise it returns an error (HTTP 500), and
  for a batch more than 3 minutes old the error message is
  \<^verbatim>\<open>No current data batch available (latest: <timestamp>).\<close>
\<close>

theorem healthzChecker_ok_iff:
  "((healthzChecker time_String now batch = None)
     = (\<exists>b. batch = Some b \<and> now - Timestamp b \<le> 3 * Minute \<and> MetricSets b \<noteq> fmempty))
   \<and> healthz_status (healthzChecker time_String now batch)
     = (if \<exists>b. batch = Some b \<and> now - Timestamp b \<le> 3 * Minute \<and> MetricSets b \<noteq> fmempty
        then 200 else 500)
   \<and> (\<forall>b. batch = Some b \<and> now - Timestamp b > 3 * Minute \<longrightarrow>
        healthzChecker time_String now batch
          = Some (''No current data batch available (latest: ''
                  @ time_String (Timestamp b) @ '').''))"
proof (cases batch)
  case None
  then show ?thesis
    by (simp add: healthzChecker_def healthz_status_def http_StatusInternalServerError_def)
next
  case (Some b)
  show ?thesis
    unfolding Some healthzChecker_Some
    by (simp add: healthz_status_def http_StatusOK_def http_StatusInternalServerError_def)
qed

theorem healthzChecker_ok_iff_witness:
  "healthzChecker fmt_d 60000000000
       (Some \<lparr>Timestamp = 0, MetricSets = fmupd ''node:n'' () fmempty\<rparr>) = None
   \<and> healthz_status (healthzChecker fmt_d 60000000000
       (Some \<lparr>Timestamp = 0, MetricSets = fmupd ''node:n'' () fmempty\<rparr>)) = 200
   \<and> healthzChecker fmt_d 240000000000
       (Some \<lparr>Timestamp = 0, MetricSets = fmupd ''node:n'' () fmempty\<rparr>)
     = Some ''No current data batch available (latest: 0).''
   \<and> healthz_status (healthzChecker fmt_d 240000000000
       (Some \<lparr>Timestamp = 0, MetricSets = fmupd ''node:n'' () fmempty\<rparr>)) = 500"
  using healthzChecker_ok_iff [of fmt_d 60000000000
       "Some \<lparr>Timestamp = 0, MetricSets = fmupd ''node:n'' () fmempty\<rparr>"]
    healthzChecker_ok_iff [of fmt_d 240000000000
       "Some \<lparr>Timestamp = 0, MetricSets = fmupd ''node:n'' () fmempty\<rparr>"]
  by (simp add: Minute_def Second_def healthz_status_def http_StatusOK_def
      http_StatusInternalServerError_def fmt_d_def fmt_nat.simps)


section \<open>Properties of the elasticsearch events sink\<close>

lemma eventToPoint_marshal_error:
  "json_MarshalIndent event = (bytes, Some err) \<Longrightarrow>
     eventToPoint lk json_MarshalIndent event = Ok (None, Some err)"
  by (simp add: eventToPoint_def getEventValue_def)

lemma export_loop_marshal_error:
  "json_MarshalIndent event = (bytes, Some err) \<Longrightarrow>
     export_loop lk json_MarshalIndent saveData (event # events) trace = Panic nil_dereference"
  by (simp add: eventToPoint_marshal_error)

text \<open>
  Claim C10 at a failing input: a batch of one event whose JSON serialisation fails. The
  loop logs the error and then reads \<^verbatim>\<open>point.EventTimestamp\<close> through the nil point, so
  \<^verbatim>\<open>ExportEvents\<close> panics with a nil pointer dereference; with a serialiser that succeeds
  the same batch is saved and flushed.
\<close>

theorem ExportEvents_marshal_error_panics:
  "ExportEvents example_label_keys failing_MarshalIndent succeeding_saveData
     (Some \<lparr>Events = [Some example_event]\<rparr>)
     = Panic ''invalid memory address or nil pointer dereference''
   \<and> ExportEvents example_label_keys succeeding_MarshalIndent succeeding_saveData
     (Some \<lparr>Events = [Some example_event]\<rparr>)
     = Ok [SaveData 5
            [\<lparr>EventValue = ''{}'', EventTimestamp = 5,
              EventTags = [''eventID'' \<mapsto> ''e1'', ''pod_id'' \<mapsto> ''p1'',
                           ''pod_name'' \<mapsto> ''pod'', ''hostname'' \<mapsto> ''host'']\<rparr>],
           FlushData]"
  by (simp add: ExportEvents_def eventToPoint_def getEventValue_def nil_dereference_def
      failing_MarshalIndent_def succeeding_MarshalIndent_def succeeding_saveData_def
      example_label_keys_def example_event_def)

section \<open>Properties of the summary decoder\<close>

lemma fold_fmupd_lookup:
  "fmlookup (fold (\<lambda>c. fmupd (kf c) (vf c)) cs m) k =
     (case find (\<lambda>c. kf c = k) (rev cs) of Some c \<Rightarrow> Some (vf c) | None \<Rightarrow> fmlookup m k)"
  by (induction cs rule: rev_induct) auto


lemma PodContainerKey_inject [simp]:
  "(PodContainerKey ns p a = PodContainerKey ns p b) = (a = b)"
  by (simp add: PodContainerKey_def)

lemma PodKey_neq_PodContainerKey [simp]:
  "PodKey ns p \<noteq> PodContainerKey ns p c" "PodContainerKey ns p c \<noteq> PodKey ns p"
  by (simp_all add: PodKey_def PodContainerKey_def)

lemma terminated_iff:
  "terminated cs c = (\<exists>d \<in> set cs. ContainerName d = ContainerName c
                        \<and> ContainerStartTime c < ContainerStartTime d)"
  by (simp add: terminated_def list_ex_iff)

lemma find_False: "find (\<lambda>c. False) xs = None"
  by (induction xs) auto

lemma decodePodStats_PodKey:
  "fmlookup (decodePodStats pod m) (PodKey (PodRef_Namespace pod) (PodRef_Name pod))
     = Some (podMetricSet pod)"
  by (simp add: decodePodStats_def fold_fmupd_lookup find_False)

lemma decodePodStats_other:
  assumes "k \<notin> set (pod_keys pod)"
  shows "fmlookup (decodePodStats pod m) k = fmlookup m k"
proof -
  have "find (\<lambda>c. PodContainerKey (PodRef_Namespace pod) (PodRef_Name pod) (ContainerName c) = k)
          (rev (filter (\<lambda>c. \<not> terminated (Containers pod) c) (Containers pod))) = None"
    using assms by (auto simp: find_None_iff pod_keys_def)
  moreover have "k \<noteq> PodKey (PodRef_Namespace pod) (PodRef_Name pod)"
    using assms by (auto simp: pod_keys_def)
  ultimately show ?thesis
    by (simp add: decodePodStats_def fold_fmupd_lookup)
qed

lemma find_unique:
  assumes "c \<in> set xs" "P c" "\<forall>d \<in> set xs. P d \<longrightarrow> d = c"
  shows "find P xs = Some c"
proof (cases "find P xs")
  case None
  then have "\<not> (\<exists>x. x \<in> set xs \<and> P x)" by (simp add: find_None_iff)
  with assms show ?thesis by blast
next
  case (Some d)
  then obtain i where "i < length xs" "P (xs ! i)" "d = xs ! i"
    unfolding find_Some_iff by blast
  then have "d \<in> set xs" "P d" by simp_all
  with assms(3) have "d = c" by blast
  with Some show ?thesis by simp
qed

lemma decodePodStats_latest:
  assumes c: "c \<in> set (Containers pod)"
    and latest: "\<forall>d \<in> set (Containers pod). ContainerName d = ContainerName c \<and> d \<noteq> c
                  \<longrightarrow> ContainerStartTime d < ContainerStartTime c"
  shows "fmlookup (decodePodStats pod m)
           (PodContainerKey (PodRef_Namespace pod) (PodRef_Name pod) (ContainerName c))
         = Some (decodeContainerStats MetricSetTypePodContainer c)"
proof -
  let ?live = "filter (\<lambda>c. \<not> terminated (Containers pod) c) (Containers pod)"
  have live_c: "\<not> terminated (Containers pod) c"
    using latest by (fastforce simp: terminated_iff)
  have others: "terminated (Containers pod) d"
    if "d \<in> set (Containers pod)" "ContainerName d = ContainerName c" "d \<noteq> c" for d
    using that latest c by (auto simp: terminated_iff)
  have "find (\<lambda>d. PodContainerKey (PodRef_Namespace pod) (PodRef_Name pod) (ContainerName d)
                  = PodContainerKey (PodRef_Namespace pod) (PodRef_Name pod) (ContainerName c))
          (rev ?live) = Some c"
  proof (rule find_unique)
    show "c \<in> set (rev ?live)" using c live_c by simp
    show "PodContainerKey (PodRef_Namespace pod) (PodRef_Name pod) (ContainerName c)
            = PodContainerKey (PodRef_Namespace pod) (PodRef_Name pod) (ContainerName c)" by simp
    show "\<forall>d \<in> set (rev ?live).
            PodContainerKey (PodRef_Namespace pod) (PodRef_Name pod) (ContainerName d)
              = PodContainerKey (PodRef_Namespace pod) (PodRef_Name pod) (ContainerName c)
            \<longrightarrow> d = c"
      using others by auto
  qed
  then show ?thesis
    by (simp add: decodePodStats_def fold_fmupd_lookup)
qed

lemma fold_decodePodStats_lookup:
  assumes "\<forall>q \<in> set after. k \<notin> set (pod_keys q)"
  shows "fmlookup (fold decodePodStats (before @ pod # after) m) k
           = fmlookup (decodePodStats pod (fold decodePodStats before m)) k"
  using assms
proof (induction after rule: rev_induct)
  case Nil
  show ?case by simp
next
  case (snoc q after)
  have "fmlookup (fold decodePodStats (before @ pod # after @ [q]) m) k
          = fmlookup (decodePodStats q (fold decodePodStats (before @ pod # after) m)) k"
    by simp
  also have "\<dots> = fmlookup (fold decodePodStats (before @ pod # after) m) k"
    using snoc.prems by (simp add: decodePodStats_other)
  also have "\<dots> = fmlookup (decodePodStats pod (fold decodePodStats before m)) k"
    using snoc by simp
  finally show ?case by simp
qed

lemma latest_sibling:
  assumes "c \<in> set cs"
  shows "\<exists>d \<in> set cs. ContainerName d = ContainerName c \<and> \<not> terminated cs d
           \<and> ContainerStartTime c \<le> ContainerStartTime d"
proof -
  let ?S = "{d \<in> set cs. ContainerName d = ContainerName c}"
  let ?T = "ContainerStartTime ` ?S"
  have fin: "finite ?T" by simp
  have ne: "?T \<noteq> {}" using assms by auto
  have "Max ?T \<in> ?T" using Max_in [OF fin ne] .
  then obtain d where d: "d \<in> ?S" "ContainerStartTime d = Max ?T" by auto
  have "\<not> terminated cs d"
  proof
    assume "terminated cs d"
    then obtain e where e: "e \<in> set cs" "ContainerName e = ContainerName d"
      "ContainerStartTime d < ContainerStartTime e"
      by (auto simp: terminated_iff)
    then have "ContainerStartTime e \<in> ?T" using d(1) by auto
    then have "ContainerStartTime e \<le> Max ?T" using Max_ge [OF fin] by blast
    with e(3) d(2) show False by simp
  qed
  moreover have "ContainerStartTime c \<le> ContainerStartTime d"
  proof -
    have "ContainerStartTime c \<in> ?T" using assms by auto
    then have "ContainerStartTime c \<le> Max ?T" using Max_ge [OF fin] by blast
    with d(2) show ?thesis by simp
  qed
  ultimately show ?thesis using d(1) by auto
qed

lemma terminated_removeAll:
  assumes "terminated cs t"
  shows "terminated (removeAll t cs) d = terminated cs d"
proof
  assume "terminated (removeAll t cs) d"
  then show "terminated cs d" by (auto simp: terminated_iff)
next
  assume "terminated cs d"
  then obtain e where e: "e \<in> set cs" "ContainerName e = ContainerName d"
    "ContainerStartTime d < ContainerStartTime e"
    by (auto simp: terminated_iff)
  obtain l where l: "l \<in> set cs" "ContainerName l = ContainerName e" "\<not> terminated cs l"
    "ContainerStartTime e \<le> ContainerStartTime l"
    using latest_sibling [OF e(1)] by blast
  have "l \<noteq> t" using l(3) assms by auto
  then have "l \<in> set (removeAll t cs)" using l(1) by simp
  moreover have "ContainerName l = ContainerName d" using l(2) e(2) by simp
  moreover have "ContainerStartTime d < ContainerStartTime l" using e(3) l(4) by simp
  ultimately show "terminated (removeAll t cs) d" by (auto simp: terminated_iff)
qed

lemma filter_removeAll_not:
  "\<not> P t \<Longrightarrow> filter P (removeAll t cs) = filter P cs"
  by (induction cs) auto

lemma filter_removeAll_terminated:
  assumes "terminated cs t"
  shows "filter (\<lambda>c. \<not> terminated (removeAll t cs) c) (removeAll t cs)
           = filter (\<lambda>c. \<not> terminated cs c) cs"
proof -
  have "filter (\<lambda>c. \<not> terminated (removeAll t cs) c) (removeAll t cs)
          = filter (\<lambda>c. \<not> terminated cs c) (removeAll t cs)"
    by (simp add: terminated_removeAll [OF assms])
  also have "\<dots> = filter (\<lambda>c. \<not> terminated cs c) cs"
    using assms by (simp add: filter_removeAll_not)
  finally show ?thesis .
qed

lemma decodePodStats_drop_terminated:
  assumes "terminated (Containers pod) t"
  shows "decodePodStats (pod\<lparr>Containers := removeAll t (Containers pod)\<rparr>) m
           = decodePodStats pod m"
  by (simp add: decodePodStats_def podMetricSet_def filter_removeAll_terminated [OF assms])






lemma addLabeledIntMetric_append:
  "addLabeledIntMetric m r v lms = lms @ addLabeledIntMetric m r v []"
  by (simp add: addLabeledIntMetric_def split: option.splits)

lemma decodeFsStats_append: "decodeFsStats r fs lms = lms @ decodeFsStats r fs []"
  by (cases fs) (auto simp: decodeFsStats_def addLabeledIntMetric_def split: option.splits)

lemma fold_volumes:
  "fold (\<lambda>vol lms. decodeFsStats (VolumeResourcePrefix @ VolumeName vol) (Some (VolumeFsStats vol)) lms)
     vols acc = acc @ concat (map volume_metrics vols)"
proof (induction vols arbitrary: acc)
  case Nil
  show ?case by simp
next
  case (Cons vol vols)
  have "decodeFsStats (VolumeResourcePrefix @ VolumeName vol) (Some (VolumeFsStats vol)) acc
          = acc @ volume_metrics vol"
    unfolding volume_metrics_def by (rule decodeFsStats_append)
  then show ?case by (simp add: Cons.IH)
qed

lemma podMetricSet_LabeledMetrics:
  "LabeledMetrics (podMetricSet pod) = concat (map volume_metrics (PodVolumeStats pod))"
  by (simp add: podMetricSet_def fold_volumes)

lemma volume_metrics_label:
  "lm \<in> set (volume_metrics vol) \<Longrightarrow>
     MetricLabels lm = [LabelResourceID_Key \<mapsto> VolumeResourcePrefix @ VolumeName vol]"
  by (auto simp: volume_metrics_def decodeFsStats_def addLabeledIntMetric_def
      split: option.splits)

lemma volume_metrics_full:
  "AvailableBytes (VolumeFsStats vol) = Some a \<Longrightarrow> CapacityBytes (VolumeFsStats vol) = Some l
   \<Longrightarrow> UsedBytes (VolumeFsStats vol) = Some u \<Longrightarrow>
   volume_metrics vol =
     [\<lparr>MetricName = MetricFilesystemAvailable,
       MetricLabels = [LabelResourceID_Key \<mapsto> VolumeResourcePrefix @ VolumeName vol],
       LabeledValue = IntValue a\<rparr>,
      \<lparr>MetricName = MetricFilesystemLimit,
       MetricLabels = [LabelResourceID_Key \<mapsto> VolumeResourcePrefix @ VolumeName vol],
       LabeledValue = IntValue l\<rparr>,
      \<lparr>MetricName = MetricFilesystemUsage,
       MetricLabels = [LabelResourceID_Key \<mapsto> VolumeResourcePrefix @ VolumeName vol],
       LabeledValue = IntValue u\<rparr>]"
  by (simp add: volume_metrics_def decodeFsStats_def addLabeledIntMetric_def)

lemma length_concat_const:
  "\<forall>x \<in> set xs. length (f x) = n \<Longrightarrow> length (concat (map f xs)) = n * length xs"
  by (induction xs) auto

text \<open>
  Claim C2. When a pod of the decoded Summary has two or more container entries of the same
  name, the batch holds one metric set under that container's key, the one decoded from the
  entry with the greatest start time, and an earlier entry of that name contributes nothing:
  removing it from the document leaves the decoded batch unchanged. (The key is assumed not
  to be written by a pod that follows in the document.)
\<close>

theorem decodeSummary_keeps_latest_container:
  assumes pods: "Pods s = before @ pod # after"
    and c: "c \<in> set (Containers pod)"
    and latest: "\<forall>d \<in> set (Containers pod). ContainerName d = ContainerName c \<and> d \<noteq> c
                  \<longrightarrow> ContainerStartTime d < ContainerStartTime c"
    and later: "\<forall>q \<in> set after.
        PodContainerKey (PodRef_Namespace pod) (PodRef_Name pod) (ContainerName c)
          \<notin> set (pod_keys q)"
  shows "fmlookup (decodeSummary s)
           (PodContainerKey (PodRef_Namespace pod) (PodRef_Name pod) (ContainerName c))
         = Some (decodeContainerStats MetricSetTypePodContainer c)
       \<and> (\<forall>d \<in> set (Containers pod). ContainerName d = ContainerName c \<and> d \<noteq> c \<longrightarrow>
            decodeSummary (s\<lparr>Pods := before @ pod\<lparr>Containers := removeAll d (Containers pod)\<rparr>
                                          # after\<rparr>)
              = decodeSummary s)"
proof
  show "fmlookup (decodeSummary s)
           (PodContainerKey (PodRef_Namespace pod) (PodRef_Name pod) (ContainerName c))
         = Some (decodeContainerStats MetricSetTypePodContainer c)"
    unfolding decodeSummary_def pods
    by (simp only: fold_decodePodStats_lookup [OF later] decodePodStats_latest [OF c latest])
next
  show "\<forall>d \<in> set (Containers pod). ContainerName d = ContainerName c \<and> d \<noteq> c \<longrightarrow>
            decodeSummary (s\<lparr>Pods := before @ pod\<lparr>Containers := removeAll d (Containers pod)\<rparr>
                                          # after\<rparr>)
              = decodeSummary s"
  proof (intro ballI impI)
    fix d
    assume d: "d \<in> set (Containers pod)" "ContainerName d = ContainerName c \<and> d \<noteq> c"
    then have "terminated (Containers pod) d"
      using latest c by (auto simp: terminated_iff)
    then show "decodeSummary (s\<lparr>Pods := before @ pod\<lparr>Containers := removeAll d (Containers pod)\<rparr>
                                          # after\<rparr>)
              = decodeSummary s"
      by (simp add: decodeSummary_def pods decodePodStats_drop_terminated)
  qed
qed

theorem decodeSummary_keeps_latest_container_witness:
  "fmlookup (decodeSummary (testSummary 0)) ''namespace:test0/pod:pod0/container:c0''
     = Some (decodeContainerStats MetricSetTypePodContainer
               (genTestSummaryContainer 0 ''c0'' 2000))
   \<and> decodeSummary
        ((testSummary 0)\<lparr>Pods :=
           [(testPod0 0)\<lparr>Containers := [genTestSummaryContainer 0 ''c0'' 2000,
                                          genTestSummaryContainer 0 ''c1'' 2001]\<rparr>,
            testPod1 0, testPod2 0]\<rparr>)
     = decodeSummary (testSummary 0)"
proof -
  let ?c = "genTestSummaryContainer 0 ''c0'' 2000"
  let ?t = "genTestSummaryTerminatedContainer 0 ''c0'' 2000"
  have cs: "Containers (testPod0 0) = [?c, genTestSummaryContainer 0 ''c1'' 2001, ?t]"
    by (simp add: testPod0_def)
  have ne: "?t \<noteq> ?c" "genTestSummaryContainer 0 ''c1'' 2001 \<noteq> ?t"
    by (simp_all add: genTestSummaryContainer_def genTestSummaryTerminatedContainer_def
        Minute_def Second_def)
  have h1: "Pods (testSummary 0) = [] @ testPod0 0 # [testPod1 0, testPod2 0]"
    by (simp add: testSummary_def)
  have h2: "?c \<in> set (Containers (testPod0 0))"
    by (simp add: cs)
  have h3: "\<forall>d \<in> set (Containers (testPod0 0)). ContainerName d = ContainerName ?c \<and> d \<noteq> ?c
              \<longrightarrow> ContainerStartTime d < ContainerStartTime ?c"
    by (simp add: cs genTestSummaryContainer_def genTestSummaryTerminatedContainer_def
        Minute_def Second_def)
  have h4: "\<forall>q \<in> set [testPod1 0, testPod2 0].
      PodContainerKey (PodRef_Namespace (testPod0 0)) (PodRef_Name (testPod0 0)) (ContainerName ?c)
        \<notin> set (pod_keys q)"
    by (simp add: pod_keys_def testPod0_def testPod1_def testPod2_def PodContainerKey_def
        PodKey_def genTestSummaryContainer_def)
  have rem: "removeAll ?t (Containers (testPod0 0))
               = [?c, genTestSummaryContainer 0 ''c1'' 2001]"
    using ne by (simp add: cs)
  have nm: "ContainerName ?t = ContainerName ?c"
    by (simp add: genTestSummaryContainer_def genTestSummaryTerminatedContainer_def)
  have key: "PodContainerKey (PodRef_Namespace (testPod0 0)) (PodRef_Name (testPod0 0))
               (ContainerName ?c) = ''namespace:test0/pod:pod0/container:c0''"
    by (simp add: PodContainerKey_def testPod0_def genTestSummaryContainer_def)
  have t_in: "?t \<in> set (Containers (testPod0 0))"
    by (simp add: cs)
  from decodeSummary_keeps_latest_container [OF h1 h2 h3 h4] t_in nm ne(1) show ?thesis
    unfolding key by (auto simp: rem)
qed



text \<open>
  Claim C4. For every pod of a decoded Summary, every labeled metric of the pod's metric set
  carries the label \<^verbatim>\<open>resource_id\<close> with the value \<^verbatim>\<open>Volume:<name>\<close> of one of the pod's
  volumes; each present filesystem statistic of a volume (available, capacity as limit, used
  as usage) yields its labeled metric; when every volume carries the three statistics the pod
  has exactly three labeled metrics per volume (6 for two volumes, 3 for one); and that
  metric set is the one stored under the pod's key (when no later pod writes the key).
\<close>

theorem podMetricSet_volume_metrics:
  "VolumeResourcePrefix = ''Volume:''
   \<and> (\<forall>lm \<in> set (LabeledMetrics (podMetricSet pod)).
      \<exists>vol \<in> set (PodVolumeStats pod).
        MetricLabels lm LabelResourceID_Key = Some (VolumeResourcePrefix @ VolumeName vol))
   \<and> (\<forall>vol \<in> set (PodVolumeStats pod). \<forall>x.
        (AvailableBytes (VolumeFsStats vol) = Some x \<longrightarrow>
           \<lparr>MetricName = MetricFilesystemAvailable,
            MetricLabels = [LabelResourceID_Key \<mapsto> VolumeResourcePrefix @ VolumeName vol],
            LabeledValue = IntValue x\<rparr> \<in> set (LabeledMetrics (podMetricSet pod)))
      \<and> (CapacityBytes (VolumeFsStats vol) = Some x \<longrightarrow>
           \<lparr>MetricName = MetricFilesystemLimit,
            MetricLabels = [LabelResourceID_Key \<mapsto> VolumeResourcePrefix @ VolumeName vol],
            LabeledValue = IntValue x\<rparr> \<in> set (LabeledMetrics (podMetricSet pod)))
      \<and> (UsedBytes (VolumeFsStats vol) = Some x \<longrightarrow>
           \<lparr>MetricName = MetricFilesystemUsage,
            MetricLabels = [LabelResourceID_Key \<mapsto> VolumeResourcePrefix @ VolumeName vol],
            LabeledValue = IntValue x\<rparr> \<in> set (LabeledMetrics (podMetricSet pod))))
   \<and> ((\<forall>vol \<in> set (PodVolumeStats pod).
          AvailableBytes (VolumeFsStats vol) \<noteq> None
        \<and> CapacityBytes (VolumeFsStats vol) \<noteq> None
        \<and> UsedBytes (VolumeFsStats vol) \<noteq> None)
      \<longrightarrow> length (LabeledMetrics (podMetricSet pod)) = 3 * length (PodVolumeStats pod))
   \<and> (Pods s = before @ pod # after
        \<and> (\<forall>q \<in> set after. PodKey (PodRef_Namespace pod) (PodRef_Name pod) \<notin> set (pod_keys q))
      \<longrightarrow> fmlookup (decodeSummary s) (PodKey (PodRef_Namespace pod) (PodRef_Name pod))
            = Some (podMetricSet pod))"
proof (intro conjI)
  show "VolumeResourcePrefix = ''Volume:''"
    by (simp add: VolumeResourcePrefix_def)
next
  show "\<forall>lm \<in> set (LabeledMetrics (podMetricSet pod)).
      \<exists>vol \<in> set (PodVolumeStats pod).
        MetricLabels lm LabelResourceID_Key = Some (VolumeResourcePrefix @ VolumeName vol)"
    by (auto simp: podMetricSet_LabeledMetrics dest!: volume_metrics_label)
next
  show "\<forall>vol \<in> set (PodVolumeStats pod). \<forall>x.
        (AvailableBytes (VolumeFsStats vol) = Some x \<longrightarrow>
           \<lparr>MetricName = MetricFilesystemAvailable,
            MetricLabels = [LabelResourceID_Key \<mapsto> VolumeResourcePrefix @ VolumeName vol],
            LabeledValue = IntValue x\<rparr> \<in> set (LabeledMetrics (podMetricSet pod)))
      \<and> (CapacityBytes (VolumeFsStats vol) = Some x \<longrightarrow>
           \<lparr>MetricName = MetricFilesystemLimit,
            MetricLabels = [LabelResourceID_Key \<mapsto> VolumeResourcePrefix @ VolumeName vol],
            LabeledValue = IntValue x\<rparr> \<in> set (LabeledMetrics (podMetricSet pod)))
      \<and> (UsedBytes (VolumeFsStats vol) = Some x \<longrightarrow>
           \<lparr>MetricName = MetricFilesystemUsage,
            MetricLabels = [LabelResourceID_Key \<mapsto> VolumeResourcePrefix @ VolumeName vol],
            LabeledValue = IntValue x\<rparr> \<in> set (LabeledMetrics (podMetricSet pod)))"
  proof (intro ballI allI)
    fix vol x
    assume vol: "vol \<in> set (PodVolumeStats pod)"
    have sub: "set (volume_metrics vol) \<subseteq> set (LabeledMetrics (podMetricSet pod))"
      using vol by (auto simp: podMetricSet_LabeledMetrics)
    have "(AvailableBytes (VolumeFsStats vol) = Some x \<longrightarrow>
           \<lparr>MetricName = MetricFilesystemAvailable,
            MetricLabels = [LabelResourceID_Key \<mapsto> VolumeResourcePrefix @ VolumeName vol],
            LabeledValue = IntValue x\<rparr> \<in> set (volume_metrics vol))
      \<and> (CapacityBytes (VolumeFsStats vol) = Some x \<longrightarrow>
           \<lparr>MetricName = MetricFilesystemLimit,
            MetricLabels = [LabelResourceID_Key \<mapsto> VolumeResourcePrefix @ VolumeName vol],
            LabeledValue = IntValue x\<rparr> \<in> set (volume_metrics vol))
      \<and> (UsedBytes (VolumeFsStats vol) = Some x \<longrightarrow>
           \<lparr>MetricName = MetricFilesystemUsage,
            MetricLabels = [LabelResourceID_Key \<mapsto> VolumeResourcePrefix @ VolumeName vol],
            LabeledValue = IntValue x\<rparr> \<in> set (volume_metrics vol))"
      by (auto simp: volume_metrics_def decodeFsStats_def addLabeledIntMetric_def
          split: option.splits)
    with sub show "(AvailableBytes (VolumeFsStats vol) = Some x \<longrightarrow>
           \<lparr>MetricName = MetricFilesystemAvailable,
            MetricLabels = [LabelResourceID_Key \<mapsto> VolumeResourcePrefix @ VolumeName vol],
            LabeledValue = IntValue x\<rparr> \<in> set (LabeledMetrics (podMetricSet pod)))
      \<and> (CapacityBytes (VolumeFsStats vol) = Some x \<longrightarrow>
           \<lparr>MetricName = MetricFilesystemLimit,
            MetricLabels = [LabelResourceID_Key \<mapsto> VolumeResourcePrefix @ VolumeName vol],
            LabeledValue = IntValue x\<rparr> \<in> set (LabeledMetrics (podMetricSet pod)))
      \<and> (UsedBytes (VolumeFsStats vol) = Some x \<longrightarrow>
           \<lparr>MetricName = MetricFilesystemUsage,
            MetricLabels = [LabelResourceID_Key \<mapsto> VolumeResourcePrefix @ VolumeName vol],
            LabeledValue = IntValue x\<rparr> \<in> set (LabeledMetrics (podMetricSet pod)))"
      by blast
  qed
next
  show "(\<forall>vol \<in> set (PodVolumeStats pod).
          AvailableBytes (VolumeFsStats vol) \<noteq> None
        \<and> CapacityBytes (VolumeFsStats vol) \<noteq> None
        \<and> UsedBytes (VolumeFsStats vol) \<noteq> None)
      \<longrightarrow> length (LabeledMetrics (podMetricSet pod)) = 3 * length (PodVolumeStats pod)"
  proof
    assume full: "\<forall>vol \<in> set (PodVolumeStats pod).
          AvailableBytes (VolumeFsStats vol) \<noteq> None
        \<and> CapacityBytes (VolumeFsStats vol) \<noteq> None
        \<and> UsedBytes (VolumeFsStats vol) \<noteq> None"
    have "\<forall>vol \<in> set (PodVolumeStats pod). length (volume_metrics vol) = 3"
      using full by (auto simp: volume_metrics_full)
    then show "length (LabeledMetrics (podMetricSet pod)) = 3 * length (PodVolumeStats pod)"
      unfolding podMetricSet_LabeledMetrics by (rule length_concat_const)
  qed
next
  show "Pods s = before @ pod # after
        \<and> (\<forall>q \<in> set after. PodKey (PodRef_Namespace pod) (PodRef_Name pod) \<notin> set (pod_keys q))
      \<longrightarrow> fmlookup (decodeSummary s) (PodKey (PodRef_Namespace pod) (PodRef_Name pod))
            = Some (podMetricSet pod)"
  proof
    assume a: "Pods s = before @ pod # after
        \<and> (\<forall>q \<in> set after. PodKey (PodRef_Namespace pod) (PodRef_Name pod) \<notin> set (pod_keys q))"
    then have later: "\<forall>q \<in> set after.
        PodKey (PodRef_Namespace pod) (PodRef_Name pod) \<notin> set (pod_keys q)" by simp
    show "fmlookup (decodeSummary s) (PodKey (PodRef_Namespace pod) (PodRef_Name pod))
            = Some (podMetricSet pod)"
      unfolding decodeSummary_def using a
      by (simp only: fold_decodePodStats_lookup [OF later] decodePodStats_PodKey)
  qed
qed

theorem podMetricSet_volume_metrics_witness:
  "map (\<lambda>lm. (MetricName lm, MetricLabels lm ''resource_id'', LabeledValue lm))
       (LabeledMetrics (podMetricSet (testPod1 0)))
     = [(MetricFilesystemAvailable, Some ''Volume:A'', IntValue 3013),
        (MetricFilesystemLimit, Some ''Volume:A'', IntValue 3012),
        (MetricFilesystemUsage, Some ''Volume:A'', IntValue 3011),
        (MetricFilesystemAvailable, Some ''Volume:B'', IntValue 3013),
        (MetricFilesystemLimit, Some ''Volume:B'', IntValue 3012),
        (MetricFilesystemUsage, Some ''Volume:B'', IntValue 3011)]
   \<and> length (LabeledMetrics (podMetricSet (testPod1 0))) = 6
   \<and> length (LabeledMetrics (podMetricSet scrapeTestPod)) = 3
   \<and> fmlookup (decodeSummary (scrapeTestSummary 0)) ''namespace:my-namespace/pod:my-pod''
       = Some (podMetricSet scrapeTestPod)"
proof (intro conjI)
  show "map (\<lambda>lm. (MetricName lm, MetricLabels lm ''resource_id'', LabeledValue lm))
       (LabeledMetrics (podMetricSet (testPod1 0)))
     = [(MetricFilesystemAvailable, Some ''Volume:A'', IntValue 3013),
        (MetricFilesystemLimit, Some ''Volume:A'', IntValue 3012),
        (MetricFilesystemUsage, Some ''Volume:A'', IntValue 3011),
        (MetricFilesystemAvailable, Some ''Volume:B'', IntValue 3013),
        (MetricFilesystemLimit, Some ''Volume:B'', IntValue 3012),
        (MetricFilesystemUsage, Some ''Volume:B'', IntValue 3011)]"
    by (simp add: podMetricSet_def testPod1_def genTestSummaryFsStats_def uint64Val_def
        offsetFsAvailable_def offsetFsCapacity_def offsetFsUsed_def decodeFsStats_def
        addLabeledIntMetric_def LabelResourceID_Key_def VolumeResourcePrefix_def)
next
  have "(\<forall>vol \<in> set (PodVolumeStats (testPod1 0)).
          AvailableBytes (VolumeFsStats vol) \<noteq> None
        \<and> CapacityBytes (VolumeFsStats vol) \<noteq> None
        \<and> UsedBytes (VolumeFsStats vol) \<noteq> None)
      \<longrightarrow> length (LabeledMetrics (podMetricSet (testPod1 0)))
            = 3 * length (PodVolumeStats (testPod1 0))"
    using podMetricSet_volume_metrics [of "testPod1 0"] by blast
  then show "length (LabeledMetrics (podMetricSet (testPod1 0))) = 6"
    by (simp add: testPod1_def genTestSummaryFsStats_def uint64Val_def)
next
  have "(\<forall>vol \<in> set (PodVolumeStats scrapeTestPod).
          AvailableBytes (VolumeFsStats vol) \<noteq> None
        \<and> CapacityBytes (VolumeFsStats vol) \<noteq> None
        \<and> UsedBytes (VolumeFsStats vol) \<noteq> None)
      \<longrightarrow> length (LabeledMetrics (podMetricSet scrapeTestPod))
            = 3 * length (PodVolumeStats scrapeTestPod)"
    using podMetricSet_volume_metrics [of scrapeTestPod] by blast
  then show "length (LabeledMetrics (podMetricSet scrapeTestPod)) = 3"
    by (simp add: scrapeTestPod_def uint64Val_def)
next
  have "Pods (scrapeTestSummary 0) = [] @ scrapeTestPod # []
        \<and> (\<forall>q \<in> set []. PodKey (PodRef_Namespace scrapeTestPod) (PodRef_Name scrapeTestPod)
               \<notin> set (pod_keys q))
      \<longrightarrow> fmlookup (decodeSummary (scrapeTestSummary 0))
             (PodKey (PodRef_Namespace scrapeTestPod) (PodRef_Name scrapeTestPod))
            = Some (podMetricSet scrapeTestPod)"
    using podMetricSet_volume_metrics [of scrapeTestPod "scrapeTestSummary 0" "[]" "[]"]
    by blast
  moreover have "PodKey (PodRef_Namespace scrapeTestPod) (PodRef_Name scrapeTestPod)
                   = ''namespace:my-namespace/pod:my-pod''"
    by (simp add: PodKey_def scrapeTestPod_def)
  ultimately show "fmlookup (decodeSummary (scrapeTestSummary 0))
       ''namespace:my-namespace/pod:my-pod'' = Some (podMetricSet scrapeTestPod)"
    by (simp add: scrapeTestSummary_def)
qed

end
